theory Spec2Isabelle
  imports Main
begin

section \<open>Python values, exceptions and dictionaries\<close>

text \<open>
  The exceptions that can arise in \<^verbatim>\<open>timeplus_schema_reader.py\<close>. All of them are
  subclasses of Python's \<^verbatim>\<open>Exception\<close>, so a handler \<^verbatim>\<open>except Exception\<close> catches each.
  \<open>DriverError\<close> stands for whatever the proton driver raises (network, authentication,
  server errors), with its message. What is not an \<^verbatim>\<open>Exception\<close> (a keyboard interrupt, an
  exit of the interpreter) is not an answer of the driver and is left out.
\<close>

datatype exn = AttributeError | IndexError | KeyError | ValueError | DriverError string

text \<open>Sequencing of computations that may raise: the first exception wins.\<close>

definition bind_exn :: "exn + 'a \<Rightarrow> ('a \<Rightarrow> exn + 'b) \<Rightarrow> exn + 'b" where
  "bind_exn m f = (case m of Inl e \<Rightarrow> Inl e | Inr x \<Rightarrow> f x)"

text \<open>\<^verbatim>\<open>row[i]\<close> on a tuple: IndexError out of range.\<close>

definition py_getitem :: "'a list \<Rightarrow> nat \<Rightarrow> exn + 'a" where
  "py_getitem xs i = (if i < length xs then Inr (xs ! i) else Inl IndexError)"

text \<open>
  A Python dict keeps its keys in insertion order; it is an association list with distinct
  keys. \<^verbatim>\<open>d[k] = v\<close> overwrites the value of a key already present, at its place, and
  appends a new key otherwise. \<^verbatim>\<open>d[k]\<close> raises KeyError for an absent key.
\<close>

type_synonym ('k, 'v) dict = "('k \<times> 'v) list"

definition dict_contains :: "('k, 'v) dict \<Rightarrow> 'k \<Rightarrow> bool" where
  "dict_contains d k = (k \<in> set (map fst d))"

definition dict_getitem :: "('k, 'v) dict \<Rightarrow> 'k \<Rightarrow> exn + 'v" where
  "dict_getitem d k = (case map_of d k of None \<Rightarrow> Inl KeyError | Some v \<Rightarrow> Inr v)"

fun dict_setitem :: "('k, 'v) dict \<Rightarrow> 'k \<Rightarrow> 'v \<Rightarrow> ('k, 'v) dict" where
  "dict_setitem [] k v = [(k, v)]"
| "dict_setitem ((k', v') # d) k v =
     (if k' = k then (k, v) # d else (k', v') # dict_setitem d k v)"

section \<open>The proton driver and the reader object\<close>

text \<open>
  A row returned by \<^verbatim>\<open>client.execute\<close> is a tuple of any length whose fields are
  strings: the three columns selected from \<^verbatim>\<open>system.columns\<close> and the columns of
  \<^verbatim>\<open>DESCRIBE\<close> are of the database's String type, and \<^verbatim>\<open>get_table_columns\<close> is
  annotated \<^verbatim>\<open>List[Tuple[str, str, str]]\<close>.
\<close>

type_synonym row = "string list"

text \<open>
  The calls made on the driver, in order: the constructor \<^verbatim>\<open>client.Client(host=...,
  port=..., user=..., password=..., database=...)\<close> and \<^verbatim>\<open>execute(query)\<close> on a client
  object. A client object is identified by a number.
\<close>

datatype call =
  Client_init string int string string string
| Execute nat string

text \<open>
  The driver is a parameter of the model. \<open>PROTON_AVAILABLE\<close> is the module constant set
  by the guarded import. \<open>Client\<close> and \<open>execute\<close> answer a call given all the calls made
  before it, so that the driver may answer the same call differently at different times;
  each may raise.
\<close>

record driver =
  PROTON_AVAILABLE :: bool
  Client :: "call list \<Rightarrow> string \<Rightarrow> int \<Rightarrow> string \<Rightarrow> string \<Rightarrow> string \<Rightarrow> exn + nat"
  execute :: "call list \<Rightarrow> nat \<Rightarrow> string \<Rightarrow> exn + row list"

text \<open>The fields of a \<^verbatim>\<open>TimeplusSchemaReader\<close>; \<open>client\<close> is \<open>None\<close> until a client is stored.\<close>

record reader =
  host :: string
  port :: int
  user :: string
  password :: string
  database :: string
  client :: "nat option"

text \<open>The state a method runs in: the object \<^verbatim>\<open>self\<close> and the calls made on the driver.\<close>

record state =
  self :: reader
  trace :: "call list"

type_synonym 'a action = "state \<Rightarrow> (exn + 'a) \<times> state"

definition return :: "'a \<Rightarrow> 'a action" where
  "return x = (\<lambda>s. (Inr x, s))"

definition bind :: "'a action \<Rightarrow> ('a \<Rightarrow> 'b action) \<Rightarrow> 'b action" where
  "bind m f = (\<lambda>s. case m s of (Inl e, s') \<Rightarrow> (Inl e, s') | (Inr x, s') \<Rightarrow> f x s')"

text \<open>
  \<^verbatim>\<open>try: m except Exception as e: h e\<close>. What the body did to the state before it raised
  stays done.
\<close>

definition try_except :: "'a action \<Rightarrow> (exn \<Rightarrow> 'a action) \<Rightarrow> 'a action" where
  "try_except m h = (\<lambda>s. case m s of (Inl e, s') \<Rightarrow> h e s' | (Inr x, s') \<Rightarrow> (Inr x, s'))"

definition lift :: "exn + 'a \<Rightarrow> 'a action" where
  "lift r = (\<lambda>s. (r, s))"

text \<open>\<^verbatim>\<open>self.client = client.Client(host=self.host, ...)\<close>: the assignment happens only when
  the constructor returns.\<close>

definition new_client :: "driver \<Rightarrow> unit action" where
  "new_client d = (\<lambda>s.
     let r = self s;
         s' = s\<lparr>trace := trace s @ [Client_init (host r) (port r) (user r) (password r) (database r)]\<rparr>
     in case Client d (trace s) (host r) (port r) (user r) (password r) (database r) of
          Inl e \<Rightarrow> (Inl e, s')
        | Inr c \<Rightarrow> (Inr (), s'\<lparr>self := r\<lparr>client := Some c\<rparr>\<rparr>))"

text \<open>\<^verbatim>\<open>self.client.execute(query)\<close>: AttributeError when \<^verbatim>\<open>self.client\<close> is None.\<close>

definition client_execute :: "driver \<Rightarrow> string \<Rightarrow> row list action" where
  "client_execute d query = (\<lambda>s.
     case client (self s) of
       None \<Rightarrow> (Inl AttributeError, s)
     | Some c \<Rightarrow> (execute d (trace s) c query, s\<lparr>trace := trace s @ [Execute c query]\<rparr>))"

section \<open>TimeplusSchemaReader\<close>

definition connect :: "driver \<Rightarrow> bool action" where
  "connect d =
     (if \<not> PROTON_AVAILABLE d then return False
      else try_except
             (bind (new_client d) (\<lambda>_.
              bind (client_execute d ''SELECT 1'') (\<lambda>_.
              return True)))
             (\<lambda>e. return False))"

definition describe_query :: "string \<Rightarrow> string \<Rightarrow> string" where
  "describe_query db table_name = ''DESCRIBE '' @ db @ ''.'' @ table_name"

definition columns_query :: "string \<Rightarrow> string \<Rightarrow> string" where
  "columns_query db table_name =
     ''\<newline>            SELECT name, type, comment\<newline>            FROM system.columns \<newline>            WHERE database = ''
     @ [CHR 0x27] @ db @ [CHR 0x27] @ '' AND table = '' @ [CHR 0x27] @ table_name @ [CHR 0x27]
     @ ''\<newline>            ORDER BY position\<newline>            ''"

text \<open>The loop of \<^verbatim>\<open>_describe_table\<close>: rows with fewer than two fields are skipped.\<close>

fun describe_table_loop ::
  "row list \<Rightarrow> (string \<times> string \<times> string) list \<Rightarrow> exn + (string \<times> string \<times> string) list" where
  "describe_table_loop [] columns = Inr columns"
| "describe_table_loop (row # result) columns =
     (if length row \<ge> 2 then
        bind_exn (py_getitem row 0) (\<lambda>column_name.
        bind_exn (py_getitem row 1) (\<lambda>column_type.
        bind_exn (if length row > 2 then py_getitem row 2 else Inr '''') (\<lambda>comment.
        describe_table_loop result (columns @ [(column_name, column_type, comment)]))))
      else describe_table_loop result columns)"

definition describe_table :: "driver \<Rightarrow> string \<Rightarrow> (string \<times> string \<times> string) list action" where
  "describe_table d table_name =
     try_except
       (\<lambda>s. bind (client_execute d (describe_query (database (self s)) table_name)) (\<lambda>result.
             lift (describe_table_loop result [])) s)
       (\<lambda>e. return [])"

text \<open>The loop of \<^verbatim>\<open>get_table_columns\<close>: a missing field is read as the empty string.\<close>

fun get_table_columns_loop ::
  "row list \<Rightarrow> (string \<times> string \<times> string) list \<Rightarrow> exn + (string \<times> string \<times> string) list" where
  "get_table_columns_loop [] columns = Inr columns"
| "get_table_columns_loop (row # result) columns =
     bind_exn (if length row > 0 then py_getitem row 0 else Inr '''') (\<lambda>column_name.
     bind_exn (if length row > 1 then py_getitem row 1 else Inr '''') (\<lambda>column_type.
     bind_exn (if length row > 2 then py_getitem row 2 else Inr '''') (\<lambda>comment.
     get_table_columns_loop result (columns @ [(column_name, column_type, comment)]))))"

definition get_table_columns :: "driver \<Rightarrow> string \<Rightarrow> (string \<times> string \<times> string) list action" where
  "get_table_columns d table_name = (\<lambda>s.
     if client (self s) = None then return [] s
     else try_except
            (bind (client_execute d (columns_query (database (self s)) table_name)) (\<lambda>result.
             bind (lift (get_table_columns_loop result [])) (\<lambda>columns.
             if columns = [] then describe_table d table_name
             else return columns)))
            (\<lambda>e. describe_table d table_name) s)"

definition get_column_descriptions :: "(string, string) dict" where
  "get_column_descriptions =
     [(''event_ts'', ''Event timestamp''),
      (''metric'', ''Metric name identifier''),
      (''value'', ''Metric value (use to_float64() for numeric operations)''),
      (''metric_date'', ''Date component''),
      (''metric_time'', ''Time component''),
      (''metric_datetime'', ''Combined datetime''),
      (''tagK1'', ''Tag key 1''),
      (''tagV1'', ''Tag value 1''),
      (''tagK2'', ''Tag key 2''),
      (''tagV2'', ''Tag value 2''),
      (''tagK3'', ''Tag key 3''),
      (''tagV3'', ''Tag value 3''),
      (''tagK4'', ''Tag key 4''),
      (''tagV4'', ''Tag value 4''),
      (''tagK5'', ''Tag key 5''),
      (''tagV5'', ''Tag value 5''),
      (''_tp_time'', ''System timestamp'')]"

text \<open>
  The dictionary \<^verbatim>\<open>get_schema_dict\<close> returns. The key \<^verbatim>\<open>connection_info\<close> is present
  only in a live result.
\<close>

record connection_info =
  ci_host :: string
  ci_port :: int
  ci_database :: string

record schema =
  table_name :: string
  description :: string
  columns :: "(string, string) dict"
  constraints :: "string list"
  source :: string
  connection_info :: "connection_info option"

definition get_fallback_schema :: "string \<Rightarrow> schema" where
  "get_fallback_schema tbl =
     \<lparr>table_name = tbl,
      description = ''Time-series metrics data table - ONLY TABLE ALLOWED FOR QUERIES'',
      columns =
        [(''event_ts'', ''uint64 - Event timestamp''),
         (''metric'', ''string - Metric name identifier''),
         (''value'', ''string - Metric value (use to_float64() for numeric operations)''),
         (''metric_date'', ''int64 - Date component''),
         (''metric_time'', ''int64 - Time component''),
         (''metric_datetime'', ''int64 - Combined datetime''),
         (''tagK1'', ''low_cardinality(string) - Tag key 1''),
         (''tagV1'', ''string - Tag value 1''),
         (''tagK2'', ''low_cardinality(string) - Tag key 2''),
         (''tagV2'', ''string - Tag value 2''),
         (''tagK3'', ''low_cardinality(string) - Tag key 3''),
         (''tagV3'', ''string - Tag value 3''),
         (''tagK4'', ''low_cardinality(string) - Tag key 4''),
         (''tagV4'', ''string - Tag value 4''),
         (''tagK5'', ''low_cardinality(string) - Tag key 5''),
         (''tagV5'', ''string - Tag value 5''),
         (''_tp_time'', ''datetime64(3, 'UTC') - System timestamp'')],
      constraints =
        [''SINGLE TABLE ONLY - No JOINs allowed'',
         ''No subqueries with other tables'',
         ''Must search CSV knowledge base first to find relevant metrics''],
      source = ''fallback'',
      connection_info = None\<rparr>"

text \<open>The loop of \<^verbatim>\<open>get_schema_dict\<close> that fills the \<^verbatim>\<open>columns\<close> dictionary.\<close>

fun get_schema_dict_loop ::
  "(string \<times> string \<times> string) list \<Rightarrow> (string, string) dict \<Rightarrow> exn + (string, string) dict" where
  "get_schema_dict_loop [] cols = Inr cols"
| "get_schema_dict_loop ((col_name, col_type, comment) # columns_info) cols =
     (if comment \<noteq> '''' then
        get_schema_dict_loop columns_info
          (dict_setitem cols col_name (col_type @ '' - '' @ comment))
      else if dict_contains get_column_descriptions col_name then
        bind_exn (dict_getitem get_column_descriptions col_name) (\<lambda>business.
        get_schema_dict_loop columns_info
          (dict_setitem cols col_name (col_type @ '' - '' @ business)))
      else get_schema_dict_loop columns_info (dict_setitem cols col_name col_type))"

definition get_schema_dict :: "driver \<Rightarrow> string \<Rightarrow> schema action" where
  "get_schema_dict d tbl =
     bind (connect d) (\<lambda>connected.
     if \<not> connected then return (get_fallback_schema tbl)
     else bind (get_table_columns d tbl) (\<lambda>columns_info.
          if columns_info = [] then return (get_fallback_schema tbl)
          else bind (lift (get_schema_dict_loop columns_info [])) (\<lambda>cols. (\<lambda>s.
               return
                 \<lparr>table_name = tbl,
                  description = ''Time-series metrics data table - ONLY TABLE ALLOWED FOR QUERIES'',
                  columns = cols,
                  constraints =
                    [''SINGLE TABLE ONLY - No JOINs allowed'',
                     ''No subqueries with other tables'',
                     ''Must search CSV knowledge base first to find relevant metrics''],
                  source = ''timeplus_api'',
                  connection_info =
                    Some \<lparr>ci_host = host (self s), ci_port = port (self s),
                          ci_database = database (self s)\<rparr>\<rparr> s))))"

section \<open>The module global and the convenience functions\<close>

text \<open>\<^verbatim>\<open>os.getenv(name, default)\<close> on the process environment.\<close>

type_synonym environ = "string \<rightharpoonup> string"

definition getenv :: "environ \<Rightarrow> string \<Rightarrow> string \<Rightarrow> string" where
  "getenv env name dflt = (case env name of None \<Rightarrow> dflt | Some v \<Rightarrow> v)"

text \<open>
  \<^verbatim>\<open>int(s)\<close> on a string belongs to the interpreter: which characters it strips and which
  it reads as digits comes from its Unicode tables, and how many digits it accepts from its
  settings. It is a parameter \<open>to_int\<close> of the constructor, as the driver is a parameter of
  the methods: it returns the integer or raises.
\<close>

text \<open>\<^verbatim>\<open>x or y\<close> for an optional string: None and the empty string are false.\<close>

definition py_or :: "string option \<Rightarrow> string \<Rightarrow> string" where
  "py_or x y = (case x of None \<Rightarrow> y | Some v \<Rightarrow> if v = '''' then y else v)"

text \<open>
  \<^verbatim>\<open>TimeplusSchemaReader.__init__\<close>. The port of the environment is parsed only when no
  (non-zero) port is given; the parse may raise, and then no object exists.
\<close>

definition TimeplusSchemaReader_init ::
  "(string \<Rightarrow> exn + int) \<Rightarrow> environ \<Rightarrow> string option \<Rightarrow> int option \<Rightarrow> string option \<Rightarrow>
     string option \<Rightarrow> string option \<Rightarrow> exn + reader" where
  "TimeplusSchemaReader_init to_int env h p u pw db =
     bind_exn
       (case p of
          None \<Rightarrow> to_int (getenv env ''TIMEPLUS_PORT'' ''8463'')
        | Some n \<Rightarrow> if n \<noteq> 0 then Inr n else to_int (getenv env ''TIMEPLUS_PORT'' ''8463''))
       (\<lambda>n. Inr \<lparr>host = py_or h (getenv env ''TIMEPLUS_HOST'' ''localhost''),
                  port = n,
                  user = py_or u (getenv env ''TIMEPLUS_USER'' ''default''),
                  password = py_or pw (getenv env ''TIMEPLUS_PASSWORD'' ''''),
                  database = py_or db (getenv env ''TIMEPLUS_DATABASE'' ''default''),
                  client = None\<rparr>)"

text \<open>
  The process: the reader objects by address, the module global \<^verbatim>\<open>_schema_reader\<close> (None or
  the address of an object), and the calls made on the driver. Only \<^verbatim>\<open>get_schema_reader\<close>
  writes the global, with the address of the object it has just appended, so the address
  it holds is always that of an object.
\<close>

record process =
  heap :: "reader list"
  schema_reader :: "nat option"
  calls :: "call list"

definition get_schema_reader ::
  "(string \<Rightarrow> exn + int) \<Rightarrow> environ \<Rightarrow> process \<Rightarrow> (exn + nat) \<times> process" where
  "get_schema_reader to_int env p =
     (case schema_reader p of
        Some a \<Rightarrow> (Inr a, p)
      | None \<Rightarrow>
          (case TimeplusSchemaReader_init to_int env None None None None None of
             Inl e \<Rightarrow> (Inl e, p)
           | Inr r \<Rightarrow>
               (Inr (length (heap p)),
                p\<lparr>heap := heap p @ [r], schema_reader := Some (length (heap p))\<rparr>)))"

definition get_table_schema ::
  "(string \<Rightarrow> exn + int) \<Rightarrow> driver \<Rightarrow> environ \<Rightarrow> string \<Rightarrow> process \<Rightarrow>
     (exn + schema) \<times> process" where
  "get_table_schema to_int d env tbl p =
     (case get_schema_reader to_int env p of
        (Inl e, p') \<Rightarrow> (Inl e, p')
      | (Inr a, p') \<Rightarrow>
          (case get_schema_dict d tbl \<lparr>self = heap p' ! a, trace = calls p'\<rparr> of
             (res, s') \<Rightarrow> (res, p'\<lparr>heap := (heap p')[a := self s'], calls := trace s'\<rparr>)))"

section \<open>The static schema of t\_metrics\_agent\_v2\<close>

text \<open>The values found in the dictionaries that the tool functions return.\<close>

datatype pyval =
  PBool bool
| PInt int
| PStr string
| PList "string list"
| PDict "(string, string) dict"

definition get_static_schema :: "string \<Rightarrow> (string, pyval) dict" where
  "get_static_schema tbl =
     (if tbl = ''t_metrics'' then
        (let cols =
           [(''event_ts'', ''uint64 - Event timestamp''),
            (''metric'', ''string - Metric name identifier''),
            (''value'', ''string - Metric value (use to_float64() for numeric operations)''),
            (''metric_date'', ''int64 - Date component''),
            (''metric_time'', ''int64 - Time component''),
            (''metric_datetime'', ''int64 - Combined datetime''),
            (''tagK1'', ''low_cardinality(string) - Tag key 1''),
            (''tagV1'', ''string - Tag value 1''),
            (''tagK2'', ''low_cardinality(string) - Tag key 2''),
            (''tagV2'', ''string - Tag value 2''),
            (''tagK3'', ''low_cardinality(string) - Tag key 3''),
            (''tagV3'', ''string - Tag value 3''),
            (''tagK4'', ''low_cardinality(string) - Tag key 4''),
            (''tagV4'', ''string - Tag value 4''),
            (''tagK5'', ''low_cardinality(string) - Tag key 5''),
            (''tagV5'', ''string - Tag value 5''),
            (''_tp_time'', ''datetime64(3, 'UTC') - System timestamp'')]
         in [(''success'', PBool True),
             (''source'', PStr ''static_definition''),
             (''table_name'', PStr tbl),
             (''columns'', PDict cols),
             (''column_count'', PInt (int (length cols))),
             (''note'', PStr ''Static schema - may not reflect current database structure''),
             (''recommendation'', PStr ''Prefer API schema when available'')])
      else
        [(''success'', PBool False),
         (''source'', PStr ''unsupported_table''),
         (''error'', PStr (''No static schema available for '' @ tbl)),
         (''supported_tables'', PList [''t_metrics'']),
         (''recommendation'', PStr ''Use get_table_schema_from_api() for other tables'')])"

section \<open>Vocabulary of the properties\<close>

text \<open>Field \<open>i\<close> of a row, read as the empty string when the row is too short.\<close>

definition field :: "row \<Rightarrow> nat \<Rightarrow> string" where
  "field row i = (if i < length row then row ! i else '''')"

definition row_triple :: "row \<Rightarrow> string \<times> string \<times> string" where
  "row_triple row = (field row 0, field row 1, field row 2)"

text \<open>
  The description stored for a column with name \<open>n\<close>, type \<open>t\<close> and database comment \<open>c\<close>.
\<close>

definition merged_description :: "string \<Rightarrow> string \<Rightarrow> string \<Rightarrow> string" where
  "merged_description n t c =
     (if c \<noteq> '''' then t @ '' - '' @ c
      else case map_of get_column_descriptions n of
             Some b \<Rightarrow> t @ '' - '' @ b
           | None \<Rightarrow> t)"

text \<open>The live result for the column triples \<open>columns_info\<close> and the reader \<open>r\<close>.\<close>

definition live_schema :: "string \<Rightarrow> (string \<times> string \<times> string) list \<Rightarrow> reader \<Rightarrow> schema" where
  "live_schema tbl columns_info r =
     \<lparr>table_name = tbl,
      description = ''Time-series metrics data table - ONLY TABLE ALLOWED FOR QUERIES'',
      columns = fold (\<lambda>(n, t, c) d. dict_setitem d n (merged_description n t c)) columns_info [],
      constraints =
        [''SINGLE TABLE ONLY - No JOINs allowed'',
         ''No subqueries with other tables'',
         ''Must search CSV knowledge base first to find relevant metrics''],
      source = ''timeplus_api'',
      connection_info =
        Some \<lparr>ci_host = host r, ci_port = port r, ci_database = database r\<rparr>\<rparr>"

section \<open>Counting the calls on the driver\<close>

text \<open>A \<^verbatim>\<open>DESCRIBE\<close> query is an \<^verbatim>\<open>execute\<close> call whose text begins with that word.\<close>

fun is_describe :: "call \<Rightarrow> bool" where
  "is_describe (Execute c q) = (take 9 q = ''DESCRIBE '')"
| "is_describe (Client_init h p u pw db) = False"

definition describe_calls :: "call list \<Rightarrow> nat" where
  "describe_calls t = length (filter is_describe t)"

text \<open>The constructor calls, and the constructor call a reader makes with its own fields.\<close>

fun is_Client_init :: "call \<Rightarrow> bool" where
  "is_Client_init (Client_init h p u pw db) = True"
| "is_Client_init (Execute c q) = False"

abbreviation self_Client_init :: "reader \<Rightarrow> call" where
  "self_Client_init r \<equiv> Client_init (host r) (port r) (user r) (password r) (database r)"

abbreviation self_Client :: "driver \<Rightarrow> state \<Rightarrow> exn + nat" where
  "self_Client d s \<equiv>
     Client d (trace s) (host (self s)) (port (self s)) (user (self s)) (password (self s))
       (database (self s))"

section \<open>Sequences of calls\<close>

text \<open>A sequence of calls of \<^verbatim>\<open>get_table_schema\<close>, each with the environment of its time.\<close>

definition run ::
  "(string \<Rightarrow> exn + int) \<Rightarrow> driver \<Rightarrow> (environ \<times> string) list \<Rightarrow> process \<Rightarrow> process" where
  "run to_int d cs p = fold (\<lambda>(env, tbl) p. snd (get_table_schema to_int d env tbl p)) cs p"

definition same_parameters :: "reader \<Rightarrow> reader \<Rightarrow> bool" where
  "same_parameters r r' =
     (host r = host r' \<and> port r = port r' \<and> user r = user r' \<and> password r = password r' \<and>
      database r = database r')"

section \<open>Example readers and drivers\<close>

text \<open>A reader constructed with no arguments in an empty environment, before any call.\<close>

definition reader0 :: reader where
  "reader0 =
     \<lparr>host = ''localhost'', port = 8463, user = ''default'', password = '''',
      database = ''default'', client = None\<rparr>"

definition state0 :: state where
  "state0 = \<lparr>self = reader0, trace = []\<rparr>"

text \<open>The import of the driver failed.\<close>

definition absent_driver :: driver where
  "absent_driver =
     \<lparr>PROTON_AVAILABLE = False,
      Client = (\<lambda>h a b c d e. Inl (DriverError ''no driver'')),
      execute = (\<lambda>h c q. Inl (DriverError ''no driver''))\<rparr>"

text \<open>The driver is installed and the server refuses every query, the probe included.\<close>

definition refusing_driver :: driver where
  "refusing_driver =
     \<lparr>PROTON_AVAILABLE = True,
      Client = (\<lambda>h a b c d e. Inr (length h)),
      execute = (\<lambda>h c q. Inl (DriverError ''Connection refused''))\<rparr>"

text \<open>
  A server that answers the probe, answers every \<^verbatim>\<open>DESCRIBE\<close> query with \<open>secondary\<close>
  and every other query with \<open>primary\<close>. Each client object is new: it is numbered by the
  count of calls made before its construction.
\<close>

definition scripted_driver :: "exn + row list \<Rightarrow> exn + row list \<Rightarrow> driver" where
  "scripted_driver primary secondary =
     \<lparr>PROTON_AVAILABLE = True,
      Client = (\<lambda>h a b c d e. Inr (length h)),
      execute = (\<lambda>h c q.
        if q = ''SELECT 1'' then Inr [[''1'']]
        else if take 9 q = ''DESCRIBE '' then secondary
        else primary)\<rparr>"

text \<open>
  A conversion for the examples: \<^verbatim>\<open>int(s)\<close> as CPython 3.11 computes it with its default
  limit of 4300 digits, on the strings whose characters are code points below 256, which are
  the strings of this theory. Whitespace is stripped at both ends: the codes 9 to 13 and 32,
  and the codes 0x85 and 0xA0; the codes 28 to 31 are not stripped. One sign is allowed, then
  come decimal digits with single underscores between them. Everything else raises
  ValueError, and so do more than 4300 digits.
\<close>

definition int_isspace :: "char \<Rightarrow> bool" where
  "int_isspace c = ((of_char c :: nat) \<in> set [9, 10, 11, 12, 13, 32, 133, 160])"

definition int_isdigit :: "char \<Rightarrow> bool" where
  "int_isdigit c = (48 \<le> (of_char c :: nat) \<and> (of_char c :: nat) \<le> 57)"

definition int_strip :: "string \<Rightarrow> string" where
  "int_strip s = rev (dropWhile int_isspace (rev (dropWhile int_isspace s)))"

fun digits_ok :: "string \<Rightarrow> bool" where
  "digits_ok [] = False"
| "digits_ok [c] = int_isdigit c"
| "digits_ok (c # c' # cs) =
     (int_isdigit c \<and> (if c' = CHR ''_'' then digits_ok cs else digits_ok (c' # cs)))"

definition digits_value :: "string \<Rightarrow> int" where
  "digits_value s = foldl (\<lambda>n c. 10 * n + (int (of_char c) - 48)) 0 (filter int_isdigit s)"

definition int_latin1 :: "string \<Rightarrow> exn + int" where
  "int_latin1 s =
     (let t = int_strip s;
          neg = (t \<noteq> [] \<and> hd t = CHR ''-'');
          body = (if t \<noteq> [] \<and> (hd t = CHR ''-'' \<or> hd t = CHR ''+'') then tl t else t)
      in if digits_ok body \<and> length (filter int_isdigit body) \<le> 4300
         then Inr (if neg then - digits_value body else digits_value body)
         else Inl ValueError)"

text \<open>
  A process that has not called \<^verbatim>\<open>get_schema_reader\<close> yet, two environments, and a third
  whose port is not a number.
\<close>

definition process0 :: process where
  "process0 = \<lparr>heap = [], schema_reader = None, calls = []\<rparr>"

definition env1 :: environ where
  "env1 = [''TIMEPLUS_HOST'' \<mapsto> ''db1'', ''TIMEPLUS_PORT'' \<mapsto> ''9000'']"

definition env2 :: environ where
  "env2 = [''TIMEPLUS_HOST'' \<mapsto> ''db2'', ''TIMEPLUS_PORT'' \<mapsto> ''9001'']"

definition env3 :: environ where
  "env3 = [''TIMEPLUS_HOST'' \<mapsto> ''db0'', ''TIMEPLUS_PORT'' \<mapsto> ''80a'']"

section \<open>The loops never raise\<close>

lemmas action_defs = return_def bind_def try_except_def lift_def

lemmas eval_defs = get_schema_dict_def connect_def get_table_columns_def describe_table_def
  new_client_def client_execute_def return_def bind_def try_except_def lift_def
  bind_exn_def py_getitem_def dict_getitem_def dict_contains_def get_column_descriptions_def
  columns_query_def describe_query_def state0_def reader0_def Let_def

lemma get_table_columns_loop_eq:
  "get_table_columns_loop result acc = Inr (acc @ map row_triple result)"
  by (induction result arbitrary: acc)
     (simp_all add: bind_exn_def py_getitem_def row_triple_def field_def)

lemma describe_table_loop_eq:
  "describe_table_loop result acc =
     Inr (acc @ map row_triple (filter (\<lambda>row. 2 \<le> length row) result))"
  by (induction result arbitrary: acc)
     (simp_all add: bind_exn_def py_getitem_def row_triple_def field_def)

lemma dict_contains_map_of: "dict_contains d k \<longleftrightarrow> map_of d k \<noteq> None"
  by (simp add: dict_contains_def map_of_eq_None_iff)

lemma get_schema_dict_loop_eq:
  "get_schema_dict_loop ci acc =
     Inr (fold (\<lambda>(n, t, c) d. dict_setitem d n (merged_description n t c)) ci acc)"
proof (induction ci arbitrary: acc)
  case Nil
  show ?case by simp
next
  case (Cons x ci)
  obtain n t c where x: "x = (n, t, c)" by (cases x)
  show ?case
    unfolding x
    by (cases "map_of get_column_descriptions n")
       (simp_all add: Cons.IH merged_description_def bind_exn_def dict_getitem_def
          dict_contains_map_of)
qed

lemma map_of_dict_setitem: "map_of (dict_setitem d k v) = (map_of d)(k \<mapsto> v)"
  by (induction d) (auto simp: fun_eq_iff)

lemma dict_setitem_not_Nil: "dict_setitem d k v \<noteq> []"
  by (cases d) (auto split: if_splits)

section \<open>The methods never raise\<close>

lemma connect_total: "\<exists>b s'. connect d s = (Inr b, s')"
  by (cases "Client d (trace s) (host (self s)) (port (self s)) (user (self s))
               (password (self s)) (database (self s))")
     (auto simp add: connect_def action_defs new_client_def client_execute_def Let_def
      split: sum.splits option.splits prod.splits)

lemma describe_table_total: "\<exists>cs s'. describe_table d tbl s = (Inr cs, s')"
  by (auto simp add: describe_table_def action_defs client_execute_def describe_table_loop_eq
      split: sum.splits option.splits prod.splits)

lemma get_table_columns_total: "\<exists>cs s'. get_table_columns d tbl s = (Inr cs, s')"
proof (cases "client (self s)")
  case None
  then show ?thesis by (simp add: get_table_columns_def action_defs)
next
  case (Some c)
  let ?s' = "s\<lparr>trace := trace s @ [Execute c (columns_query (database (self s)) tbl)]\<rparr>"
  obtain cs s'' where D: "describe_table d tbl ?s' = (Inr cs, s'')"
    using describe_table_total by blast
  show ?thesis
    using Some D
    by (cases "execute d (trace s) c (columns_query (database (self s)) tbl)")
       (auto simp add: get_table_columns_def action_defs client_execute_def
          get_table_columns_loop_eq)
qed

section \<open>The three outcomes of get\_schema\_dict\<close>

lemma get_schema_dict_fallback:
  assumes "connect d s = (Inr False, s1)"
  shows "get_schema_dict d tbl s = (Inr (get_fallback_schema tbl), s1)"
  using assms by (simp add: get_schema_dict_def action_defs)

lemma get_schema_dict_empty:
  assumes "connect d s = (Inr True, s1)" and "get_table_columns d tbl s1 = (Inr [], s2)"
  shows "get_schema_dict d tbl s = (Inr (get_fallback_schema tbl), s2)"
  using assms by (simp add: get_schema_dict_def action_defs)

lemma get_schema_dict_live:
  assumes "connect d s = (Inr True, s1)" and "get_table_columns d tbl s1 = (Inr cs, s2)"
    and "cs \<noteq> []"
  shows "get_schema_dict d tbl s = (Inr (live_schema tbl cs (self s2)), s2)"
  using assms
  by (simp add: get_schema_dict_def action_defs get_schema_dict_loop_eq live_schema_def)

section \<open>The columns of a live result\<close>

lemma map_of_fold_setitem:
  "map_of (fold (\<lambda>(n, t, c) d. dict_setitem d n (f n t c)) ci acc) =
     fold (\<lambda>(n, t, c) m. m(n \<mapsto> f n t c)) ci (map_of acc)"
  by (induction ci arbitrary: acc) (auto simp: map_of_dict_setitem)

lemma fold_upd_other:
  "n \<notin> fst ` set ys \<Longrightarrow> fold (\<lambda>(n, t, c) m. m(n \<mapsto> f n t c)) ys m n = m n"
  by (induction ys arbitrary: m) auto

lemma fold_upd_last:
  assumes "n \<notin> fst ` set ys"
  shows "fold (\<lambda>(n, t, c) m. m(n \<mapsto> f n t c)) (xs @ (n, t, c) # ys) m n = Some (f n t c)"
  using assms by (simp add: fold_upd_other)

lemma dom_fold_upd:
  "dom (fold (\<lambda>(n, t, c) m. m(n \<mapsto> f n t c)) ci m) = dom m \<union> fst ` set ci"
  by (induction ci arbitrary: m) auto

lemma map_of_live_columns:
  "map_of (columns (live_schema tbl ci r)) =
     fold (\<lambda>(n, t, c) m. m(n \<mapsto> merged_description n t c)) ci Map.empty"
  using map_of_fold_setitem [of merged_description ci "[]"]
  by (simp add: live_schema_def)

lemma live_schema_getitem:
  assumes "n \<notin> fst ` set ys"
  shows "dict_getitem (columns (live_schema tbl (xs @ (n, t, c) # ys) r)) n =
           Inr (merged_description n t c)"
proof -
  have "map_of (columns (live_schema tbl (xs @ (n, t, c) # ys) r)) n =
          Some (merged_description n t c)"
    unfolding map_of_live_columns using assms by (rule fold_upd_last)
  then show ?thesis
    by (simp add: dict_getitem_def)
qed

lemma live_schema_contains:
  assumes "(n, t, c) \<in> set ci"
  shows "dict_contains (columns (live_schema tbl ci r)) n"
proof -
  have "n \<in> fst ` set ci"
    using assms by force
  then have "n \<in> dom (map_of (columns (live_schema tbl ci r)))"
    unfolding map_of_live_columns dom_fold_upd by simp
  then show ?thesis
    by (auto simp: dict_contains_map_of)
qed

lemma get_table_columns_primary:
  assumes "client_execute d (columns_query (database (self s1)) tbl) s1 = (Inr result, s2)"
    and "result \<noteq> []"
  shows "get_table_columns d tbl s1 = (Inr (map row_triple result), s2)"
  using assms
  by (auto simp: get_table_columns_def action_defs client_execute_def
      get_table_columns_loop_eq split: option.splits)

section \<open>What each method does to the state\<close>

lemma connect_absent:
  assumes "\<not> PROTON_AVAILABLE d"
  shows "connect d s = (Inr False, s)"
  using assms by (simp add: connect_def action_defs)

lemma connect_refused:
  assumes "PROTON_AVAILABLE d" and "self_Client d s = Inl e"
  shows "connect d s = (Inr False, s\<lparr>trace := trace s @ [self_Client_init (self s)]\<rparr>)"
  using assms by (simp add: connect_def action_defs new_client_def Let_def)

lemma connect_constructed:
  assumes "PROTON_AVAILABLE d" and "self_Client d s = Inr c"
  shows "\<exists>b. connect d s =
           (Inr b, \<lparr>self = (self s)\<lparr>client := Some c\<rparr>,
                    trace = trace s @ [self_Client_init (self s), Execute c ''SELECT 1'']\<rparr>) \<and>
           (b \<longleftrightarrow> (\<exists>rows. execute d (trace s @ [self_Client_init (self s)]) c ''SELECT 1'' = Inr rows))"
  using assms
  by (cases "execute d (trace s @ [self_Client_init (self s)]) c ''SELECT 1''")
     (auto simp add: connect_def action_defs new_client_def client_execute_def Let_def)

lemma connect_TrueD:
  assumes "connect d s = (Inr True, s1)"
  shows "\<exists>c. PROTON_AVAILABLE d \<and> self_Client d s = Inr c \<and>
           self s1 = (self s)\<lparr>client := Some c\<rparr> \<and>
           trace s1 = trace s @ [self_Client_init (self s), Execute c ''SELECT 1'']"
proof (cases "PROTON_AVAILABLE d")
  case False
  with assms show ?thesis by (simp add: connect_absent)
next
  case True
  show ?thesis
  proof (cases "self_Client d s")
    case (Inl e)
    with True assms show ?thesis by (simp add: connect_refused)
  next
    case (Inr c)
    from connect_constructed [OF True Inr] assms True Inr show ?thesis by auto
  qed
qed

lemma describe_table_eq:
  assumes "client (self s) = Some c"
  shows "describe_table d tbl s =
    (Inr (case execute d (trace s) c (describe_query (database (self s)) tbl) of
            Inl e \<Rightarrow> []
          | Inr result \<Rightarrow> map row_triple (filter (\<lambda>row. 2 \<le> length row) result)),
     s\<lparr>trace := trace s @ [Execute c (describe_query (database (self s)) tbl)]\<rparr>)"
  using assms
  by (cases "execute d (trace s) c (describe_query (database (self s)) tbl)")
     (simp_all add: describe_table_def action_defs client_execute_def describe_table_loop_eq)

lemma get_table_columns_eq:
  assumes "client (self s) = Some c"
  shows "get_table_columns d tbl s =
    (case execute d (trace s) c (columns_query (database (self s)) tbl) of
       Inr (row # result) \<Rightarrow>
         (Inr (map row_triple (row # result)),
          s\<lparr>trace := trace s @ [Execute c (columns_query (database (self s)) tbl)]\<rparr>)
     | _ \<Rightarrow> describe_table d tbl
              (s\<lparr>trace := trace s @ [Execute c (columns_query (database (self s)) tbl)]\<rparr>))"
proof -
  let ?s' = "s\<lparr>trace := trace s @ [Execute c (columns_query (database (self s)) tbl)]\<rparr>"
  have "client (self ?s') = Some c"
    using assms by simp
  note D = describe_table_eq [OF this, of d tbl]
  show ?thesis
    using assms
    by (simp add: get_table_columns_def action_defs client_execute_def get_table_columns_loop_eq D
        split: sum.splits list.splits)
qed


lemma describe_calls_append: "describe_calls (xs @ ys) = describe_calls xs + describe_calls ys"
  by (simp add: describe_calls_def)

lemma live_schema_not_fallback: "live_schema tbl cs r \<noteq> get_fallback_schema tbl'"
proof
  assume "live_schema tbl cs r = get_fallback_schema tbl'"
  then have "source (live_schema tbl cs r) = source (get_fallback_schema tbl')"
    by simp
  then show False
    by (simp add: live_schema_def get_fallback_schema_def)
qed

lemma get_table_columns_effect:
  assumes "client (self s1) = Some c" and "get_table_columns d tbl s1 = (r, s2)"
  shows "self s2 = self s1 \<and>
    (trace s2 = trace s1 @ [Execute c (columns_query (database (self s1)) tbl)] \<or>
     trace s2 = trace s1 @ [Execute c (columns_query (database (self s1)) tbl),
                            Execute c (describe_query (database (self s1)) tbl)])"
proof -
  let ?s' = "s1\<lparr>trace := trace s1 @ [Execute c (columns_query (database (self s1)) tbl)]\<rparr>"
  have "client (self ?s') = Some c"
    using assms(1) by simp
  note D = describe_table_eq [OF this, of d tbl]
  show ?thesis
    using assms(2) unfolding get_table_columns_eq [OF assms(1)] D
    by (auto split: sum.splits list.splits)
qed

lemma get_schema_dict_state:
  assumes "connect d s = (Inr True, s1)"
  shows "snd (get_schema_dict d tbl s) = snd (get_table_columns d tbl s1)"
proof -
  obtain cs s2 where G: "get_table_columns d tbl s1 = (Inr cs, s2)"
    using get_table_columns_total by blast
  show ?thesis
  proof (cases "cs = []")
    case True
    with assms G show ?thesis by (simp add: get_schema_dict_empty)
  next
    case False
    with assms G show ?thesis by (simp add: get_schema_dict_live)
  qed
qed

section \<open>The result depends on the configuration and the answers only\<close>

lemma get_table_columns_answers:
  assumes "client (self s) = Some c"
  shows "fst (get_table_columns d tbl s) =
    (case fst (client_execute d (columns_query (database (self s)) tbl) s) of
       Inr (row # result) \<Rightarrow> Inr (map row_triple (row # result))
     | _ \<Rightarrow>
       Inr (case fst (client_execute d (describe_query (database (self s)) tbl)
                       (snd (client_execute d (columns_query (database (self s)) tbl) s))) of
              Inl e \<Rightarrow> []
            | Inr result \<Rightarrow> map row_triple (filter (\<lambda>row. 2 \<le> length row) result)))"
proof -
  let ?s' = "s\<lparr>trace := trace s @ [Execute c (columns_query (database (self s)) tbl)]\<rparr>"
  have "client (self ?s') = Some c"
    using assms by simp
  note D = describe_table_eq [OF this, of d tbl]
  show ?thesis
    unfolding get_table_columns_eq [OF assms] D
    using assms by (simp add: client_execute_def split: sum.splits list.splits)
qed

lemma connect_True_config:
  assumes "connect d s = (Inr True, s1)"
  shows "client (self s1) \<noteq> None \<and> host (self s1) = host (self s) \<and>
         port (self s1) = port (self s) \<and> database (self s1) = database (self s)"
  using connect_TrueD [OF assms] by auto

lemma get_table_columns_self:
  assumes "client (self s1) \<noteq> None"
  shows "self (snd (get_table_columns d tbl s1)) = self s1"
proof -
  from assms obtain c where c: "client (self s1) = Some c" by auto
  obtain r s2 where G: "get_table_columns d tbl s1 = (r, s2)"
    by (cases "get_table_columns d tbl s1")
  from get_table_columns_effect [OF c G] G show ?thesis by simp
qed

lemma live_schema_config:
  assumes "host r = host r'" and "port r = port r'" and "database r = database r'"
  shows "live_schema tbl cs r = live_schema tbl cs r'"
  using assms by (simp add: live_schema_def)

lemma get_schema_dict_by_columns:
  assumes "connect d s = (Inr True, s1)"
  shows "fst (get_schema_dict d tbl s) =
     (case fst (get_table_columns d tbl s1) of
        Inl e \<Rightarrow> Inl e
      | Inr cs \<Rightarrow> Inr (if cs = [] then get_fallback_schema tbl else live_schema tbl cs (self s)))"
proof -
  obtain cs s2 where G: "get_table_columns d tbl s1 = (Inr cs, s2)"
    using get_table_columns_total by blast
  have c: "client (self s1) \<noteq> None"
    using connect_True_config [OF assms] by simp
  have "self s2 = self s1"
    using get_table_columns_self [OF c, of d tbl] G by simp
  then have L: "live_schema tbl cs (self s2) = live_schema tbl cs (self s)"
    using connect_True_config [OF assms] by (intro live_schema_config) simp_all
  show ?thesis
  proof (cases "cs = []")
    case True
    with assms G show ?thesis by (simp add: get_schema_dict_empty)
  next
    case False
    with assms G L show ?thesis by (simp add: get_schema_dict_live)
  qed
qed

lemma get_schema_dict_config:
  "host (self (snd (get_schema_dict d tbl s))) = host (self s) \<and>
   port (self (snd (get_schema_dict d tbl s))) = port (self s) \<and>
   database (self (snd (get_schema_dict d tbl s))) = database (self s)"
proof -
  obtain b s1 where C: "connect d s = (Inr b, s1)"
    using connect_total by blast
  show ?thesis
  proof (cases b)
    case True
    with C have C': "connect d s = (Inr True, s1)" by simp
    have "self (snd (get_schema_dict d tbl s)) = self s1"
      using get_schema_dict_state [OF C'] get_table_columns_self connect_True_config [OF C']
      by simp
    with connect_True_config [OF C'] show ?thesis by simp
  next
    case False
    with C have F: "get_schema_dict d tbl s = (Inr (get_fallback_schema tbl), s1)"
      by (simp add: get_schema_dict_fallback)
    show ?thesis
    proof (cases "PROTON_AVAILABLE d")
      case False
      with C F show ?thesis by (simp add: connect_absent)
    next
      case avail: True
      show ?thesis
      proof (cases "self_Client d s")
        case (Inl e)
        from connect_refused [OF avail Inl] C F show ?thesis by simp
      next
        case (Inr c)
        from connect_constructed [OF avail Inr] C F show ?thesis by auto
      qed
    qed
  qed
qed

section \<open>The shared reader\<close>

lemma get_schema_dict_self:
  "\<exists>c. self (snd (get_schema_dict d tbl s)) = (self s)\<lparr>client := c\<rparr>"
proof -
  have keep: "\<exists>c. self s = (self s)\<lparr>client := c\<rparr>"
    by (rule exI [of _ "client (self s)"]) simp
  obtain b s1 where C: "connect d s = (Inr b, s1)"
    using connect_total by blast
  show ?thesis
  proof (cases b)
    case True
    with C have C': "connect d s = (Inr True, s1)" by simp
    from connect_TrueD [OF C'] obtain c where c: "self s1 = (self s)\<lparr>client := Some c\<rparr>"
      by blast
    then have "client (self s1) \<noteq> None" by simp
    then have "self (snd (get_schema_dict d tbl s)) = self s1"
      using get_schema_dict_state [OF C'] get_table_columns_self by simp
    with c have "self (snd (get_schema_dict d tbl s)) = (self s)\<lparr>client := Some c\<rparr>"
      by simp
    then show ?thesis by (rule exI)
  next
    case False
    with C have F: "get_schema_dict d tbl s = (Inr (get_fallback_schema tbl), s1)"
      by (simp add: get_schema_dict_fallback)
    show ?thesis
    proof (cases "PROTON_AVAILABLE d")
      case False
      with C F keep show ?thesis by (simp add: connect_absent)
    next
      case avail: True
      show ?thesis
      proof (cases "self_Client d s")
        case (Inl e)
        from connect_refused [OF avail Inl] C F keep show ?thesis by simp
      next
        case (Inr c)
        from connect_constructed [OF avail Inr] C F show ?thesis by auto
      qed
    qed
  qed
qed

lemma get_schema_dict_same_parameters:
  "same_parameters (self (snd (get_schema_dict d tbl s))) (self s)"
proof -
  from get_schema_dict_self obtain c
    where "self (snd (get_schema_dict d tbl s)) = (self s)\<lparr>client := c\<rparr>"
    by blast
  then show ?thesis
    by (simp add: same_parameters_def)
qed

lemma TimeplusSchemaReader_init_no_arguments:
  "TimeplusSchemaReader_init to_int env None None None None None =
     (case to_int (getenv env ''TIMEPLUS_PORT'' ''8463'') of
        Inl e \<Rightarrow> Inl e
      | Inr n \<Rightarrow>
          Inr \<lparr>host = getenv env ''TIMEPLUS_HOST'' ''localhost'',
               port = n,
               user = getenv env ''TIMEPLUS_USER'' ''default'',
               password = getenv env ''TIMEPLUS_PASSWORD'' '''',
               database = getenv env ''TIMEPLUS_DATABASE'' ''default'',
               client = None\<rparr>)"
  by (simp add: TimeplusSchemaReader_init_def bind_exn_def py_or_def split: sum.splits)

lemma get_schema_reader_stored:
  assumes "schema_reader p = Some a"
  shows "get_schema_reader to_int env p = (Inr a, p)"
  using assms by (simp add: get_schema_reader_def)

lemma get_table_schema_stored:
  assumes "schema_reader p = Some a" and "a < length (heap p)"
  shows "fst (get_table_schema to_int d env tbl p) =
           fst (get_schema_dict d tbl \<lparr>self = heap p ! a, trace = calls p\<rparr>)"
    and "schema_reader (snd (get_table_schema to_int d env tbl p)) = Some a"
    and "length (heap (snd (get_table_schema to_int d env tbl p))) = length (heap p)"
    and "heap (snd (get_table_schema to_int d env tbl p)) ! a =
           self (snd (get_schema_dict d tbl \<lparr>self = heap p ! a, trace = calls p\<rparr>))"
  using assms
  by (simp_all add: get_table_schema_def get_schema_reader_stored split: prod.splits)

lemma same_parameters_trans:
  "same_parameters r r' \<Longrightarrow> same_parameters r' r'' \<Longrightarrow> same_parameters r r''"
  by (simp add: same_parameters_def)

lemma run_stored:
  assumes "schema_reader p = Some a" and "a < length (heap p)"
  shows "schema_reader (run to_int d cs p) = Some a \<and>
         length (heap (run to_int d cs p)) = length (heap p) \<and>
         same_parameters (heap (run to_int d cs p) ! a) (heap p ! a)"
  using assms
proof (induction cs arbitrary: p)
  case Nil
  then show ?case by (simp add: run_def same_parameters_def)
next
  case (Cons x cs)
  obtain env tbl where x: "x = (env, tbl)" by (cases x)
  let ?p = "snd (get_table_schema to_int d env tbl p)"
  note S = get_table_schema_stored [OF Cons.prems, of to_int d env tbl]
  have a: "schema_reader ?p = Some a" and l: "a < length (heap ?p)"
    using S Cons.prems by simp_all
  have "same_parameters (heap ?p ! a) (heap p ! a)"
    using S(4) get_schema_dict_same_parameters [of d tbl "\<lparr>self = heap p ! a, trace = calls p\<rparr>"]
    by simp
  moreover have "run to_int d (x # cs) p = run to_int d cs ?p"
    by (simp add: run_def x)
  ultimately show ?case
    using Cons.IH [OF a l] S(3) by (auto intro: same_parameters_trans)
qed

lemma get_table_schema_first:
  assumes "schema_reader p = None"
    and "TimeplusSchemaReader_init to_int env None None None None None = Inr r"
  shows "fst (get_table_schema to_int d env tbl p) =
           fst (get_schema_dict d tbl \<lparr>self = r, trace = calls p\<rparr>)"
    and "schema_reader (snd (get_table_schema to_int d env tbl p)) = Some (length (heap p))"
    and "length (heap (snd (get_table_schema to_int d env tbl p))) = Suc (length (heap p))"
    and "heap (snd (get_table_schema to_int d env tbl p)) ! length (heap p) =
           self (snd (get_schema_dict d tbl \<lparr>self = r, trace = calls p\<rparr>))"
  using assms
  by (simp_all add: get_table_schema_def get_schema_reader_def split: prod.splits)

lemma get_table_schema_constructor_raises:
  assumes "schema_reader p = None"
    and "TimeplusSchemaReader_init to_int env None None None None None = Inl e"
  shows "get_table_schema to_int d env tbl p = (Inl e, p)"
  using assms by (simp add: get_table_schema_def get_schema_reader_def)

section \<open>Claims\<close>

text \<open>
  C1. For every table name, every reader and every behaviour of the driver (absent driver,
  constructor or probe raising, queries raising, rows of any length, no rows),
  \<^verbatim>\<open>get_schema_dict\<close> returns a schema and raises nothing; the schema is either a live one
  (source \<^verbatim>\<open>timeplus_api\<close>) or the fallback schema (source \<^verbatim>\<open>fallback\<close>).
\<close>

theorem get_schema_dict_never_raises:
  "\<exists>sch s'. get_schema_dict d tbl s = (Inr sch, s') \<and>
     (source sch = ''timeplus_api'' \<or> sch = get_fallback_schema tbl)"
proof -
  obtain b s1 where C: "connect d s = (Inr b, s1)"
    using connect_total by blast
  show ?thesis
  proof (cases b)
    case False
    with C show ?thesis by (simp add: get_schema_dict_fallback)
  next
    case True
    obtain cs s2 where G: "get_table_columns d tbl s1 = (Inr cs, s2)"
      using get_table_columns_total by blast
    show ?thesis
    proof (cases "cs = []")
      case True
      with C G \<open>b\<close> show ?thesis by (simp add: get_schema_dict_empty)
    next
      case False
      with C G \<open>b\<close> show ?thesis by (simp add: get_schema_dict_live live_schema_def)
    qed
  qed
qed


text \<open>
  C2. A result of \<^verbatim>\<open>get_schema_dict\<close> with source \<^verbatim>\<open>timeplus_api\<close> has at least one
  column; and whenever the connection succeeded and \<^verbatim>\<open>get_table_columns\<close> yields no
  column, the result is the fallback schema.
\<close>

theorem live_result_has_columns:
  assumes "get_schema_dict d tbl s = (Inr sch, s')"
  shows "(source sch = ''timeplus_api'' \<longrightarrow> columns sch \<noteq> []) \<and>
         (\<forall>s1. connect d s = (Inr True, s1) \<longrightarrow> fst (get_table_columns d tbl s1) = Inr [] \<longrightarrow>
               sch = get_fallback_schema tbl)"
proof -
  obtain b s1 where C: "connect d s = (Inr b, s1)"
    using connect_total by blast
  obtain cs s2 where G: "get_table_columns d tbl s1 = (Inr cs, s2)"
    using get_table_columns_total by blast
  have nonempty: "columns (live_schema tbl cs r) \<noteq> []" if "cs \<noteq> []" for r
  proof -
    from that obtain ys y where "cs = ys @ [y]"
      by (metis rev_exhaust)
    then show ?thesis
      by (cases y) (simp add: live_schema_def dict_setitem_not_Nil)
  qed
  show ?thesis
  proof (cases b)
    case False
    with C assms show ?thesis
      by (auto simp: get_schema_dict_fallback get_fallback_schema_def)
  next
    case True
    show ?thesis
    proof (cases "cs = []")
      case True
      with C G \<open>b\<close> assms show ?thesis
        by (auto simp: get_schema_dict_empty get_fallback_schema_def)
    next
      case False
      with C G \<open>b\<close> assms have "sch = live_schema tbl cs (self s2)"
        by (auto simp: get_schema_dict_live)
      with False C G \<open>b\<close> show ?thesis
        using nonempty by auto
    qed
  qed
qed

theorem live_result_has_columns_witness:
  "columns (live_schema ''t_metrics'' [(''x'', ''int'', '''')] reader0) \<noteq> [] \<and>
   fst (get_schema_dict (scripted_driver (Inr []) (Inr [])) ''t_metrics'' state0) =
     Inr (get_fallback_schema ''t_metrics'')"
proof -
  obtain s' where A: "get_schema_dict (scripted_driver (Inr [[''x'', ''int'']]) (Inr [])) ''t_metrics'' state0
      = (Inr (live_schema ''t_metrics'' [(''x'', ''int'', '''')] reader0), s')"
    by (simp add: eval_defs scripted_driver_def live_schema_def merged_description_def)
  obtain s'' where B: "get_schema_dict (scripted_driver (Inr []) (Inr [])) ''t_metrics'' state0
      = (Inr (get_fallback_schema ''t_metrics''), s'')"
    by (simp add: eval_defs scripted_driver_def)
  obtain s1 where C: "connect (scripted_driver (Inr []) (Inr [])) state0 = (Inr True, s1)"
     and D: "fst (get_table_columns (scripted_driver (Inr []) (Inr [])) ''t_metrics'' s1) = Inr []"
    by (simp add: eval_defs scripted_driver_def)
  from live_result_has_columns [OF A] live_result_has_columns [OF B] B C D
  show ?thesis by (simp add: live_schema_def)
qed

text \<open>
  C3. Let the connection succeed and let \<open>(n, t, c)\<close> be a column triple of the live column
  list that no later triple of the list repeats by name. Then the result is live, and the
  description stored for \<open>n\<close> is: \<open>t - c\<close> when the database comment \<open>c\<close> is not empty
  (the business description is not appended); \<open>t - b\<close> when \<open>c\<close> is empty and the
  business-description table gives \<open>b\<close> for \<open>n\<close>; the type \<open>t\<close> alone when \<open>c\<close> is empty and
  \<open>n\<close> is not in the table.
\<close>

theorem merged_description_rule:
  assumes "connect d s = (Inr True, s1)"
    and "get_table_columns d tbl s1 = (Inr (xs @ (n, t, c) # ys), s2)"
    and "n \<notin> fst ` set ys"
  shows "\<exists>sch s'. get_schema_dict d tbl s = (Inr sch, s') \<and> source sch = ''timeplus_api'' \<and>
    (c \<noteq> '''' \<longrightarrow> dict_getitem (columns sch) n = Inr (t @ '' - '' @ c)) \<and>
    (c = '''' \<longrightarrow> (\<forall>b. dict_getitem get_column_descriptions n = Inr b \<longrightarrow>
        dict_getitem (columns sch) n = Inr (t @ '' - '' @ b))) \<and>
    (c = '''' \<longrightarrow> \<not> dict_contains get_column_descriptions n \<longrightarrow>
        dict_getitem (columns sch) n = Inr t)"
proof -
  let ?ci = "xs @ (n, t, c) # ys"
  let ?sch = "live_schema tbl ?ci (self s2)"
  have R: "get_schema_dict d tbl s = (Inr ?sch, s2)"
    using assms(1,2) by (simp add: get_schema_dict_live)
  have V: "dict_getitem (columns ?sch) n = Inr (merged_description n t c)"
    using assms(3) by (rule live_schema_getitem)
  have "source ?sch = ''timeplus_api''"
    by (simp add: live_schema_def)
  moreover have "c \<noteq> '''' \<longrightarrow> dict_getitem (columns ?sch) n = Inr (t @ '' - '' @ c)"
    using V by (simp add: merged_description_def)
  moreover have "c = '''' \<longrightarrow> (\<forall>b. dict_getitem get_column_descriptions n = Inr b \<longrightarrow>
        dict_getitem (columns ?sch) n = Inr (t @ '' - '' @ b))"
    using V by (auto simp: merged_description_def dict_getitem_def split: option.splits)
  moreover have "c = '''' \<longrightarrow> \<not> dict_contains get_column_descriptions n \<longrightarrow>
        dict_getitem (columns ?sch) n = Inr t"
    using V by (auto simp: merged_description_def dict_contains_map_of)
  ultimately show ?thesis
    using R by blast
qed


theorem merged_description_rule_witness:
  "(case fst (get_schema_dict
       (scripted_driver
          (Inr [[''event_ts'', ''uint64'', ''when it happened''], [''metric'', ''string'', ''''],
                [''extra'', ''int32'', '''']]) (Inr []))
       ''t_metrics'' state0) of
     Inl e \<Rightarrow> False
   | Inr sch \<Rightarrow>
       dict_getitem (columns sch) ''event_ts'' = Inr ''uint64 - when it happened'' \<and>
       dict_getitem (columns sch) ''metric'' = Inr ''string - Metric name identifier'' \<and>
       dict_getitem (columns sch) ''extra'' = Inr ''int32'')"
proof -
  let ?d = "scripted_driver
          (Inr [[''event_ts'', ''uint64'', ''when it happened''], [''metric'', ''string'', ''''],
                [''extra'', ''int32'', '''']]) (Inr [])"
  let ?a = "(''event_ts'', ''uint64'', ''when it happened'')"
  let ?b = "(''metric'', ''string'', '''')"
  let ?c = "(''extra'', ''int32'', '''')"
  obtain s1 s2 where C: "connect ?d state0 = (Inr True, s1)"
    and G: "get_table_columns ?d ''t_metrics'' s1 = (Inr [?a, ?b, ?c], s2)"
    by (simp add: eval_defs scripted_driver_def)
  have Ga: "get_table_columns ?d ''t_metrics'' s1 = (Inr ([] @ ?a # [?b, ?c]), s2)"
    and Gb: "get_table_columns ?d ''t_metrics'' s1 = (Inr ([?a] @ ?b # [?c]), s2)"
    and Gc: "get_table_columns ?d ''t_metrics'' s1 = (Inr ([?a, ?b] @ ?c # []), s2)"
    using G by simp_all
  have D: "dict_getitem get_column_descriptions ''metric'' = Inr ''Metric name identifier''"
    and E: "\<not> dict_contains get_column_descriptions ''extra''"
    by (simp_all add: dict_getitem_def dict_contains_def get_column_descriptions_def)
  from merged_description_rule [OF C Ga] merged_description_rule [OF C Gb]
    merged_description_rule [OF C Gc] D E
  show ?thesis by auto
qed

text \<open>
  C5, as the code has it. A row with fewer than three fields in the answer to the primary
  metadata query raises nothing and causes no fallback: its missing fields are read as
  empty strings, and the result is the live schema built from all rows of the answer, the
  short row's column among them.
\<close>

theorem short_row_is_live:
  assumes "connect d s = (Inr True, s1)"
    and "client_execute d (columns_query (database (self s1)) tbl) s1 = (Inr result, s2)"
    and "row \<in> set result" and "length row < 3"
  shows "get_schema_dict d tbl s = (Inr (live_schema tbl (map row_triple result) (self s2)), s2) \<and>
         row_triple row = (field row 0, field row 1, '''') \<and>
         dict_contains (columns (live_schema tbl (map row_triple result) (self s2))) (field row 0)"
proof -
  from assms(3) have ne: "result \<noteq> []" by auto
  with assms(2) have G: "get_table_columns d tbl s1 = (Inr (map row_triple result), s2)"
    by (rule get_table_columns_primary)
  have T: "row_triple row = (field row 0, field row 1, '''')"
    using assms(4) by (simp add: row_triple_def field_def)
  then have "(field row 0, field row 1, '''') \<in> set (map row_triple result)"
    using assms(3) by force
  then have "dict_contains (columns (live_schema tbl (map row_triple result) (self s2))) (field row 0)"
    by (rule live_schema_contains)
  with T show ?thesis
    using get_schema_dict_live [OF assms(1) G] ne by simp
qed

theorem short_row_is_live_witness:
  "fst (get_schema_dict (scripted_driver (Inr [[''x'', ''int''], [''y'']]) (Inr [])) ''t_metrics'' state0) =
     Inr (live_schema ''t_metrics'' [(''x'', ''int'', ''''), (''y'', '''', '''')] reader0) \<and>
   dict_contains (columns (live_schema ''t_metrics'' [(''x'', ''int'', ''''), (''y'', '''', '''')] reader0)) ''y''"
proof -
  let ?d = "scripted_driver (Inr [[''x'', ''int''], [''y'']]) (Inr [])"
  obtain s1 s2 where C: "connect ?d state0 = (Inr True, s1)"
    and E: "client_execute ?d (columns_query (database (self s1)) ''t_metrics'') s1 =
             (Inr [[''x'', ''int''], [''y'']], s2)"
    and S: "self s2 = reader0\<lparr>client := Some 0\<rparr>"
    by (simp add: eval_defs scripted_driver_def)
  have M: "[''y''] \<in> set [[''x'', ''int''], [''y'']]" and L: "length [''y''] < 3"
    by simp_all
  from short_row_is_live [OF C E M L] S
  show ?thesis by (simp add: row_triple_def field_def live_schema_def)
qed

text \<open>
  C5 as stated fails: the answer \<^verbatim>\<open>[("x", "int")]\<close>, a single row of two fields, gives a
  live result with the column \<^verbatim>\<open>x\<close>, not the fallback schema.
\<close>

theorem short_row_counterexample:
  "fst (get_schema_dict (scripted_driver (Inr [[''x'', ''int'']]) (Inr [])) ''t_metrics'' state0) =
     Inr \<lparr>table_name = ''t_metrics'',
          description = ''Time-series metrics data table - ONLY TABLE ALLOWED FOR QUERIES'',
          columns = [(''x'', ''int'')],
          constraints =
            [''SINGLE TABLE ONLY - No JOINs allowed'',
             ''No subqueries with other tables'',
             ''Must search CSV knowledge base first to find relevant metrics''],
          source = ''timeplus_api'',
          connection_info =
            Some \<lparr>ci_host = ''localhost'', ci_port = 8463, ci_database = ''default''\<rparr>\<rparr>"
  by (simp add: eval_defs scripted_driver_def)

text \<open>
  C6. When the connection succeeds and the primary metadata query returns zero rows,
  \<^verbatim>\<open>get_schema_dict\<close> sends exactly one \<^verbatim>\<open>DESCRIBE\<close> query, as the last call before it
  returns. Its result is the fallback schema exactly when the driver answers that query with
  an exception or with rows none of which has two fields; when some row of the answer has two
  fields, the result is the live schema built from the rows that have.
\<close>

theorem describe_once_before_fallback:
  assumes "connect d s = (Inr True, s1)"
    and "client_execute d (columns_query (database (self s1)) tbl) s1 = (Inr [], s2)"
  shows "\<exists>sch s' c. get_schema_dict d tbl s = (Inr sch, s') \<and> client (self s2) = Some c \<and>
     trace s' = trace s2 @ [Execute c (describe_query (database (self s2)) tbl)] \<and>
     describe_calls (trace s') = describe_calls (trace s) + 1 \<and>
     (sch = get_fallback_schema tbl \<longleftrightarrow>
        (case execute d (trace s2) c (describe_query (database (self s2)) tbl) of
           Inl e \<Rightarrow> True
         | Inr result \<Rightarrow> \<forall>row \<in> set result. length row < 2)) \<and>
     (\<forall>result. execute d (trace s2) c (describe_query (database (self s2)) tbl) = Inr result \<longrightarrow>
        (\<exists>row \<in> set result. 2 \<le> length row) \<longrightarrow>
        sch = live_schema tbl (map row_triple (filter (\<lambda>row. 2 \<le> length row) result)) (self s2))"
proof -
  from connect_TrueD [OF assms(1)] obtain c where
    c: "self s1 = (self s)\<lparr>client := Some c\<rparr>"
    and t1: "trace s1 = trace s @ [self_Client_init (self s), Execute c ''SELECT 1'']"
    by blast
  have c1: "client (self s1) = Some c"
    using c by simp
  let ?colq = "columns_query (database (self s1)) tbl"
  from assms(2) c1 have E: "execute d (trace s1) c ?colq = Inr []"
    and s2: "s2 = s1\<lparr>trace := trace s1 @ [Execute c ?colq]\<rparr>"
    by (auto simp: client_execute_def)
  have c2: "client (self s2) = Some c"
    using s2 c1 by simp
  let ?descq = "describe_query (database (self s2)) tbl"
  let ?answer = "execute d (trace s2) c ?descq"
  let ?cs = "case ?answer of
               Inl e \<Rightarrow> []
             | Inr result \<Rightarrow> map row_triple (filter (\<lambda>row. 2 \<le> length row) result)"
  let ?s' = "s2\<lparr>trace := trace s2 @ [Execute c ?descq]\<rparr>"
  have D: "describe_table d tbl s2 = (Inr ?cs, ?s')"
    by (rule describe_table_eq [OF c2])
  have G: "get_table_columns d tbl s1 = (Inr ?cs, ?s')"
    using get_table_columns_eq [OF c1, of d tbl] E D s2 by simp
  have n: "describe_calls (trace ?s') = describe_calls (trace s) + 1"
    using s2 t1
    by (simp add: describe_calls_def describe_query_def columns_query_def)
  show ?thesis
  proof (cases ?answer)
    case (Inl e)
    then have "get_table_columns d tbl s1 = (Inr [], ?s')"
      using G by simp
    from get_schema_dict_empty [OF assms(1) this] c2 n Inl show ?thesis
      by simp
  next
    case (Inr result)
    let ?rows = "filter (\<lambda>row. 2 \<le> length row) result"
    have G': "get_table_columns d tbl s1 = (Inr (map row_triple ?rows), ?s')"
      using G Inr by simp
    show ?thesis
    proof (cases "?rows = []")
      case True
      then have short: "\<forall>row \<in> set result. length row < 2"
        by (auto simp: filter_empty_conv not_le)
      from True G' have "get_table_columns d tbl s1 = (Inr [], ?s')"
        by simp
      from get_schema_dict_empty [OF assms(1) this] c2 n Inr short show ?thesis
        by auto
    next
      case False
      then have long: "\<not> (\<forall>row \<in> set result. length row < 2)"
        by (auto simp: filter_empty_conv not_le)
      from False have ne: "map row_triple ?rows \<noteq> []"
        by simp
      from get_schema_dict_live [OF assms(1) G' ne] c2 n Inr long show ?thesis
        by (simp add: live_schema_not_fallback)
    qed
  qed
qed

theorem describe_once_before_fallback_witness:
  "describe_calls (trace (snd (get_schema_dict (scripted_driver (Inr []) (Inr []))
      ''t_metrics'' state0))) = 1 \<and>
   fst (get_schema_dict (scripted_driver (Inr []) (Inr [])) ''t_metrics'' state0) =
     Inr (get_fallback_schema ''t_metrics'') \<and>
   fst (get_schema_dict (scripted_driver (Inr []) (Inl (DriverError ''Code: 60'')))
      ''t_metrics'' state0) = Inr (get_fallback_schema ''t_metrics'') \<and>
   describe_calls (trace (snd (get_schema_dict
      (scripted_driver (Inr []) (Inr [[''a'', ''int''], [''y'']])) ''t_metrics'' state0))) = 1 \<and>
   fst (get_schema_dict (scripted_driver (Inr []) (Inr [[''a'', ''int''], [''y'']]))
      ''t_metrics'' state0) = Inr (live_schema ''t_metrics'' [(''a'', ''int'', '''')] reader0)"
proof -
  let ?q = "describe_query ''default'' ''t_metrics''"
  have T: "describe_calls (trace state0) = 0"
    by (simp add: describe_calls_def state0_def)
  have Q: "?q \<noteq> ''SELECT 1''" "take 9 ?q = ''DESCRIBE ''"
    by (simp_all add: describe_query_def)
  let ?d1 = "scripted_driver (Inr []) (Inr [])"
  obtain s1 s2 where C1: "connect ?d1 state0 = (Inr True, s1)"
    and E1: "client_execute ?d1 (columns_query (database (self s1)) ''t_metrics'') s1 = (Inr [], s2)"
    and S1: "self s2 = reader0\<lparr>client := Some 0\<rparr>"
    by (simp add: eval_defs scripted_driver_def)
  have A1: "execute ?d1 h c ?q = Inr []" for h c
    using Q by (simp add: scripted_driver_def)
  let ?d2 = "scripted_driver (Inr []) (Inl (DriverError ''Code: 60''))"
  obtain t1 t2 where C2: "connect ?d2 state0 = (Inr True, t1)"
    and E2: "client_execute ?d2 (columns_query (database (self t1)) ''t_metrics'') t1 = (Inr [], t2)"
    and S2: "self t2 = reader0\<lparr>client := Some 0\<rparr>"
    by (simp add: eval_defs scripted_driver_def)
  have A2: "execute ?d2 h c ?q = Inl (DriverError ''Code: 60'')" for h c
    using Q by (simp add: scripted_driver_def)
  let ?d3 = "scripted_driver (Inr []) (Inr [[''a'', ''int''], [''y'']])"
  obtain u1 u2 where C3: "connect ?d3 state0 = (Inr True, u1)"
    and E3: "client_execute ?d3 (columns_query (database (self u1)) ''t_metrics'') u1 = (Inr [], u2)"
    and S3: "self u2 = reader0\<lparr>client := Some 0\<rparr>"
    by (simp add: eval_defs scripted_driver_def)
  have A3: "execute ?d3 h c ?q = Inr [[''a'', ''int''], [''y'']]" for h c
    using Q by (simp add: scripted_driver_def)
  have db: "database (reader0\<lparr>client := Some 0\<rparr>) = ''default''"
    by (simp add: reader0_def)
  have L: "live_schema ''t_metrics'' [row_triple [''a'', ''int'']] (reader0\<lparr>client := Some 0\<rparr>) =
           live_schema ''t_metrics'' [(''a'', ''int'', '''')] reader0"
    by (simp add: live_schema_def row_triple_def field_def)
  from describe_once_before_fallback [OF C1 E1] describe_once_before_fallback [OF C2 E2]
    describe_once_before_fallback [OF C3 E3]
  show ?thesis
    unfolding S1 S2 S3 db A1 A2 A3
    using T L by auto
qed

text \<open>
  C8. When the connection attempt fails, \<^verbatim>\<open>get_schema_dict("t_metrics")\<close> returns the
  fixed list of 17 columns with their literal descriptions, and source \<^verbatim>\<open>fallback\<close>.
\<close>

theorem unreachable_gives_fixed_fallback:
  assumes "fst (connect d s) = Inr False"
  shows "\<exists>sch s'. get_schema_dict d ''t_metrics'' s = (Inr sch, s') \<and>
     table_name sch = ''t_metrics'' \<and>
     source sch = ''fallback'' \<and>
     length (columns sch) = 17 \<and>
     columns sch =
       [(''event_ts'', ''uint64 - Event timestamp''),
        (''metric'', ''string - Metric name identifier''),
        (''value'', ''string - Metric value (use to_float64() for numeric operations)''),
        (''metric_date'', ''int64 - Date component''),
        (''metric_time'', ''int64 - Time component''),
        (''metric_datetime'', ''int64 - Combined datetime''),
        (''tagK1'', ''low_cardinality(string) - Tag key 1''),
        (''tagV1'', ''string - Tag value 1''),
        (''tagK2'', ''low_cardinality(string) - Tag key 2''),
        (''tagV2'', ''string - Tag value 2''),
        (''tagK3'', ''low_cardinality(string) - Tag key 3''),
        (''tagV3'', ''string - Tag value 3''),
        (''tagK4'', ''low_cardinality(string) - Tag key 4''),
        (''tagV4'', ''string - Tag value 4''),
        (''tagK5'', ''low_cardinality(string) - Tag key 5''),
        (''tagV5'', ''string - Tag value 5''),
        (''_tp_time'', ''datetime64(3, 'UTC') - System timestamp'')]"
proof -
  obtain s1 where "connect d s = (Inr False, s1)"
    using assms by (cases "connect d s") simp
  then have "get_schema_dict d ''t_metrics'' s = (Inr (get_fallback_schema ''t_metrics''), s1)"
    by (rule get_schema_dict_fallback)
  then show ?thesis
    by (simp add: get_fallback_schema_def)
qed

theorem unreachable_gives_fixed_fallback_witness:
  "(case fst (get_schema_dict refusing_driver ''t_metrics'' state0) of
      Inl e \<Rightarrow> False
    | Inr sch \<Rightarrow> source sch = ''fallback'' \<and> length (columns sch) = 17 \<and>
        map fst (columns sch) =
          [''event_ts'', ''metric'', ''value'', ''metric_date'', ''metric_time'',
           ''metric_datetime'', ''tagK1'', ''tagV1'', ''tagK2'', ''tagV2'', ''tagK3'', ''tagV3'',
           ''tagK4'', ''tagV4'', ''tagK5'', ''tagV5'', ''_tp_time''])"
proof -
  have C: "fst (connect refusing_driver state0) = Inr False"
    by (simp add: eval_defs refusing_driver_def)
  from unreachable_gives_fixed_fallback [OF C]
  show ?thesis by auto
qed

text \<open>
  C7, as the code has it. A call of \<^verbatim>\<open>get_schema_dict\<close> constructs exactly one client when
  the driver is available and none otherwise; every query of the call is executed on the
  client constructed in that call; and nothing is released: when the call returns, the reader
  holds the client constructed in the call if the constructor returned, and the client it held
  before the call otherwise.
\<close>

theorem one_client_per_call_and_kept:
  assumes "get_schema_dict d tbl s = (r, s')"
  shows "\<exists>calls. trace s' = trace s @ calls \<and>
     length (filter is_Client_init calls) = (if PROTON_AVAILABLE d then 1 else 0) \<and>
     (\<forall>c q. Execute c q \<in> set calls \<longrightarrow> self_Client d s = Inr c) \<and>
     client (self s') =
       (if PROTON_AVAILABLE d
        then (case self_Client d s of Inl e \<Rightarrow> client (self s) | Inr c \<Rightarrow> Some c)
        else client (self s))"
proof (cases "PROTON_AVAILABLE d")
  case False
  then have "get_schema_dict d tbl s = (Inr (get_fallback_schema tbl), s)"
    by (simp add: connect_absent get_schema_dict_fallback)
  with assms False show ?thesis by simp
next
  case True
  show ?thesis
  proof (cases "self_Client d s")
    case (Inl e)
    from connect_refused [OF True Inl]
    have "get_schema_dict d tbl s =
        (Inr (get_fallback_schema tbl), s\<lparr>trace := trace s @ [self_Client_init (self s)]\<rparr>)"
      by (rule get_schema_dict_fallback)
    with assms True Inl show ?thesis by auto
  next
    case (Inr c)
    let ?s1 = "\<lparr>self = (self s)\<lparr>client := Some c\<rparr>,
               trace = trace s @ [self_Client_init (self s), Execute c ''SELECT 1'']\<rparr>"
    from connect_constructed [OF True Inr] obtain b where C: "connect d s = (Inr b, ?s1)"
      by blast
    show ?thesis
    proof (cases b)
      case False
      with C have "get_schema_dict d tbl s = (Inr (get_fallback_schema tbl), ?s1)"
        by (simp add: get_schema_dict_fallback)
      with assms True Inr show ?thesis by auto
    next
      case b: True
      have c1: "client (self ?s1) = Some c" by simp
      from C b have "s' = snd (get_table_columns d tbl ?s1)"
        using get_schema_dict_state [of d s ?s1 tbl] assms by simp
      then have G: "get_table_columns d tbl ?s1 = (fst (get_table_columns d tbl ?s1), s')"
        by simp
      from get_table_columns_effect [OF c1 G] True Inr show ?thesis
        by auto
    qed
  qed
qed

theorem one_client_per_call_and_kept_witness:
  "client (self (snd (get_schema_dict (scripted_driver (Inr [[''x'', ''int'', '''']]) (Inr []))
      ''t_metrics'' state0))) = Some 0 \<and>
   length (filter is_Client_init (trace (snd (get_schema_dict
      (scripted_driver (Inr [[''x'', ''int'', '''']]) (Inr [])) ''t_metrics'' state0)))) = 1"
proof -
  let ?d = "scripted_driver (Inr [[''x'', ''int'', '''']]) (Inr [])"
  obtain r s' where R: "get_schema_dict ?d ''t_metrics'' state0 = (r, s')"
    by (cases "get_schema_dict ?d ''t_metrics'' state0")
  have A: "PROTON_AVAILABLE ?d" and B: "self_Client ?d state0 = Inr 0"
    and T: "trace state0 = []"
    by (simp_all add: scripted_driver_def state0_def)
  from one_client_per_call_and_kept [OF R] A B T R
  show ?thesis by auto
qed

text \<open>
  C7 as stated fails: the code calls nothing on the driver but the constructor and
  \<^verbatim>\<open>execute\<close>, and never resets \<^verbatim>\<open>self.client\<close>. A reader that held no client holds,
  after a successful call, the client on which the probe and the metadata query ran.
\<close>

theorem connection_retained_counterexample:
  "client (self state0) = None \<and>
   client (self (snd (get_schema_dict (scripted_driver (Inr [[''x'', ''int'', '''']]) (Inr []))
      ''t_metrics'' state0))) = Some 0 \<and>
   trace (snd (get_schema_dict (scripted_driver (Inr [[''x'', ''int'', '''']]) (Inr []))
      ''t_metrics'' state0)) =
     [Client_init ''localhost'' 8463 ''default'' '''' ''default'',
      Execute 0 ''SELECT 1'',
      Execute 0 (columns_query ''default'' ''t_metrics'')]"
  by (simp add: eval_defs scripted_driver_def)

text \<open>
  C9. Let a first call of \<^verbatim>\<open>get_schema_dict\<close> leave the state \<open>s'\<close>, and let a second call
  start there. If the connection succeeds in both calls and the driver gives the same answer
  in both to the primary metadata query and to the \<^verbatim>\<open>DESCRIBE\<close> query, then the second
  call returns what the first returned: the same schema, with the same columns in the same
  order. The client stored by the first call and the calls already made do not matter.
\<close>

theorem resolve_twice_same_result:
  assumes "get_schema_dict d tbl s = (res, s')"
    and "connect d s = (Inr True, sa)" and "connect d s' = (Inr True, sb)"
    and "fst (client_execute d (columns_query (database (self sa)) tbl) sa) =
         fst (client_execute d (columns_query (database (self sb)) tbl) sb)"
    and "fst (client_execute d (describe_query (database (self sa)) tbl)
               (snd (client_execute d (columns_query (database (self sa)) tbl) sa))) =
         fst (client_execute d (describe_query (database (self sb)) tbl)
               (snd (client_execute d (columns_query (database (self sb)) tbl) sb)))"
  shows "fst (get_schema_dict d tbl s') = res"
proof -
  from connect_True_config [OF assms(2)] obtain ca where ca: "client (self sa) = Some ca"
    by auto
  from connect_True_config [OF assms(3)] obtain cb where cb: "client (self sb) = Some cb"
    by auto
  have "fst (get_table_columns d tbl sa) = fst (get_table_columns d tbl sb)"
    by (simp only: get_table_columns_answers [OF ca] get_table_columns_answers [OF cb]
        assms(4) assms(5))
  moreover have "live_schema tbl cs (self s') = live_schema tbl cs (self s)" for cs
    using get_schema_dict_config [of d tbl s] assms(1) by (intro live_schema_config) simp_all
  ultimately have "fst (get_schema_dict d tbl s') = fst (get_schema_dict d tbl s)"
    unfolding get_schema_dict_by_columns [OF assms(2)] get_schema_dict_by_columns [OF assms(3)]
    by (simp split: sum.splits)
  with assms(1) show ?thesis by simp
qed

theorem resolve_twice_same_result_witness:
  "fst (get_schema_dict (scripted_driver (Inr [[''x'', ''int'', ''''], [''metric'', ''string'', '''']]) (Inr []))
      ''t_metrics''
      (snd (get_schema_dict (scripted_driver (Inr [[''x'', ''int'', ''''], [''metric'', ''string'', '''']]) (Inr []))
         ''t_metrics'' state0))) =
   Inr (live_schema ''t_metrics'' [(''x'', ''int'', ''''), (''metric'', ''string'', '''')] reader0)"
proof -
  let ?d = "scripted_driver (Inr [[''x'', ''int'', ''''], [''metric'', ''string'', '''']]) (Inr [])"
  let ?q = "columns_query ''default'' ''t_metrics''"
  let ?r = "reader0\<lparr>client := Some 0\<rparr>"
  let ?r' = "reader0\<lparr>client := Some 3\<rparr>"
  let ?i = "Client_init ''localhost'' 8463 ''default'' '''' ''default''"
  let ?s' = "\<lparr>self = ?r, trace = [?i, Execute 0 ''SELECT 1'', Execute 0 ?q]\<rparr>"
  let ?sa = "\<lparr>self = ?r, trace = [?i, Execute 0 ''SELECT 1'']\<rparr>"
  let ?sb = "\<lparr>self = ?r', trace = [?i, Execute 0 ''SELECT 1'', Execute 0 ?q, ?i, Execute 3 ''SELECT 1'']\<rparr>"
  have R: "get_schema_dict ?d ''t_metrics'' state0 =
      (Inr (live_schema ''t_metrics'' [(''x'', ''int'', ''''), (''metric'', ''string'', '''')] reader0), ?s')"
    by (simp add: eval_defs scripted_driver_def live_schema_def merged_description_def)
  have A: "connect ?d state0 = (Inr True, ?sa)"
    by (simp add: eval_defs scripted_driver_def)
  have B: "connect ?d ?s' = (Inr True, ?sb)"
    by (simp add: eval_defs scripted_driver_def)
  have P: "fst (client_execute ?d (columns_query (database (self ?sa)) ''t_metrics'') ?sa) =
         fst (client_execute ?d (columns_query (database (self ?sb)) ''t_metrics'') ?sb)"
    by (simp add: eval_defs scripted_driver_def)
  have S: "fst (client_execute ?d (describe_query (database (self ?sa)) ''t_metrics'')
               (snd (client_execute ?d (columns_query (database (self ?sa)) ''t_metrics'') ?sa))) =
         fst (client_execute ?d (describe_query (database (self ?sb)) ''t_metrics'')
               (snd (client_execute ?d (columns_query (database (self ?sb)) ''t_metrics'') ?sb)))"
    by (simp add: eval_defs scripted_driver_def)
  from resolve_twice_same_result [OF R A B P S] R
  show ?thesis by simp
qed

text \<open>
  C10, as the code has it. Let \<^verbatim>\<open>_schema_reader\<close> be None when \<^verbatim>\<open>get_table_schema\<close> is
  called. If \<^verbatim>\<open>int\<close> rejects the port of the environment, the call raises that exception and
  changes nothing: no reader is stored. Otherwise the call constructs a reader with the
  parameters of its environment, resolves with it and stores it as a new object; after any
  further calls, each in any environment, the global still points to that object, no other
  object has been made, and the object has the parameters it was constructed with;
  \<^verbatim>\<open>get_schema_reader\<close> returns it and changes nothing; and \<^verbatim>\<open>get_table_schema\<close> runs
  \<^verbatim>\<open>get_schema_dict\<close> on it and leaves in it the client that this run stored.
\<close>

theorem single_shared_reader:
  assumes "schema_reader p = None"
  shows "case to_int (getenv env ''TIMEPLUS_PORT'' ''8463'') of
           Inl e \<Rightarrow> get_table_schema to_int d env tbl p = (Inl e, p)
         | Inr n \<Rightarrow>
            (let r = \<lparr>host = getenv env ''TIMEPLUS_HOST'' ''localhost'',
                      port = n,
                      user = getenv env ''TIMEPLUS_USER'' ''default'',
                      password = getenv env ''TIMEPLUS_PASSWORD'' '''',
                      database = getenv env ''TIMEPLUS_DATABASE'' ''default'',
                      client = None\<rparr>;
                 a = length (heap p);
                 p' = run to_int d cs (snd (get_table_schema to_int d env tbl p))
             in fst (get_table_schema to_int d env tbl p) =
                  fst (get_schema_dict d tbl \<lparr>self = r, trace = calls p\<rparr>) \<and>
                schema_reader p' = Some a \<and>
                length (heap p') = Suc a \<and>
                same_parameters (heap p' ! a) r \<and>
                get_schema_reader to_int env' p' = (Inr a, p') \<and>
                fst (get_table_schema to_int d env' tbl' p') =
                  fst (get_schema_dict d tbl' \<lparr>self = heap p' ! a, trace = calls p'\<rparr>) \<and>
                heap (snd (get_table_schema to_int d env' tbl' p')) ! a =
                  self (snd (get_schema_dict d tbl' \<lparr>self = heap p' ! a, trace = calls p'\<rparr>)))"
proof (cases "to_int (getenv env ''TIMEPLUS_PORT'' ''8463'')")
  case (Inl e)
  then have "TimeplusSchemaReader_init to_int env None None None None None = Inl e"
    by (simp add: TimeplusSchemaReader_init_no_arguments)
  from get_table_schema_constructor_raises [OF assms this, of d tbl] Inl
  show ?thesis by simp
next
  case (Inr n)
  let ?r = "\<lparr>host = getenv env ''TIMEPLUS_HOST'' ''localhost'',
             port = n,
             user = getenv env ''TIMEPLUS_USER'' ''default'',
             password = getenv env ''TIMEPLUS_PASSWORD'' '''',
             database = getenv env ''TIMEPLUS_DATABASE'' ''default'',
             client = None\<rparr>"
  have I: "TimeplusSchemaReader_init to_int env None None None None None = Inr ?r"
    using Inr by (simp add: TimeplusSchemaReader_init_no_arguments)
  let ?a = "length (heap p)"
  let ?p1 = "snd (get_table_schema to_int d env tbl p)"
  let ?p' = "run to_int d cs ?p1"
  note F = get_table_schema_first [OF assms I, of d tbl]
  have a1: "schema_reader ?p1 = Some ?a" and l1: "?a < length (heap ?p1)"
    using F by simp_all
  have r1: "same_parameters (heap ?p1 ! ?a) ?r"
    using F(4) get_schema_dict_same_parameters [of d tbl "\<lparr>self = ?r, trace = calls p\<rparr>"]
    by simp
  note R = run_stored [OF a1 l1, of to_int d cs]
  have a': "schema_reader ?p' = Some ?a" and l': "?a < length (heap ?p')"
    using R l1 by simp_all
  have "same_parameters (heap ?p' ! ?a) ?r"
    using R r1 by (auto intro: same_parameters_trans)
  moreover note get_table_schema_stored [OF a' l', of to_int d env' tbl']
  moreover note get_schema_reader_stored [OF a', of to_int env']
  ultimately show ?thesis
    using F R a' Inr by (simp add: Let_def)
qed

theorem single_shared_reader_witness:
  "(let p' = run int_latin1 (scripted_driver (Inr [[''x'', ''int'', '''']]) (Inr []))
              [(env2, ''t_metrics'')]
              (snd (get_table_schema int_latin1
                      (scripted_driver (Inr [[''x'', ''int'', '''']]) (Inr []))
                      env1 ''t_metrics'' process0))
    in schema_reader p' = Some 0 \<and> length (heap p') = 1 \<and>
       host (heap p' ! 0) = ''db1'' \<and> port (heap p' ! 0) = 9000) \<and>
   get_table_schema int_latin1 (scripted_driver (Inr [[''x'', ''int'', '''']]) (Inr []))
     env3 ''t_metrics'' process0 = (Inl ValueError, process0)"
proof -
  let ?d = "scripted_driver (Inr [[''x'', ''int'', '''']]) (Inr [])"
  have N: "schema_reader process0 = None" and H: "length (heap process0) = 0"
    by (simp_all add: process0_def)
  have I1: "int_latin1 (getenv env1 ''TIMEPLUS_PORT'' ''8463'') = Inr 9000"
    by code_simp
  have H1: "getenv env1 ''TIMEPLUS_HOST'' ''localhost'' = ''db1''"
    by code_simp
  have I3: "int_latin1 (getenv env3 ''TIMEPLUS_PORT'' ''8463'') = Inl ValueError"
    by code_simp
  from single_shared_reader [where p = process0 and to_int = int_latin1 and env = env1 and d = ?d
      and tbl = "''t_metrics''" and cs = "[(env2, ''t_metrics'')]", OF N]
    single_shared_reader [where p = process0 and to_int = int_latin1 and env = env3 and d = ?d
      and tbl = "''t_metrics''", OF N]
  show ?thesis
    unfolding I1 I3 H1 using H by (simp add: Let_def same_parameters_def)
qed

text \<open>
  C10 as stated fails: a first call in an environment whose \<^verbatim>\<open>TIMEPLUS_PORT\<close> is \<^verbatim>\<open>80a\<close>
  raises ValueError and constructs no reader, and the reader that a second call constructs
  has the parameters of the second call's environment.
\<close>

theorem first_call_constructs_nothing_counterexample:
  "get_table_schema int_latin1 refusing_driver env3 ''t_metrics'' process0 =
     (Inl ValueError, process0) \<and>
   schema_reader (snd (get_table_schema int_latin1 refusing_driver env3 ''t_metrics'' process0)) =
     None \<and>
   schema_reader (snd (get_table_schema int_latin1 refusing_driver env1 ''t_metrics''
     (snd (get_table_schema int_latin1 refusing_driver env3 ''t_metrics'' process0)))) = Some 0 \<and>
   host (heap (snd (get_table_schema int_latin1 refusing_driver env1 ''t_metrics''
     (snd (get_table_schema int_latin1 refusing_driver env3 ''t_metrics'' process0)))) ! 0) =
     ''db1'' \<and>
   port (heap (snd (get_table_schema int_latin1 refusing_driver env1 ''t_metrics''
     (snd (get_table_schema int_latin1 refusing_driver env3 ''t_metrics'' process0)))) ! 0) =
     9000"
proof -
  have I3: "TimeplusSchemaReader_init int_latin1 env3 None None None None None = Inl ValueError"
    by code_simp
  have I1: "TimeplusSchemaReader_init int_latin1 env1 None None None None None =
      Inr \<lparr>host = ''db1'', port = 9000, user = ''default'', password = '''',
           database = ''default'', client = None\<rparr>"
    by code_simp
  have A: "get_table_schema int_latin1 refusing_driver env3 ''t_metrics'' process0 =
      (Inl ValueError, process0)"
    by (simp add: get_table_schema_def get_schema_reader_def I3 process0_def)
  show ?thesis
    unfolding A
    by (simp add: get_table_schema_def get_schema_reader_def I1 process0_def eval_defs
        refusing_driver_def split: prod.splits)
qed

text \<open>
  C4. With the driver absent, \<^verbatim>\<open>get_schema_dict("orders")\<close> raises nothing and returns a
  result of source \<^verbatim>\<open>fallback\<close> that names the table \<^verbatim>\<open>orders\<close> and carries the 17
  columns of \<^verbatim>\<open>t_metrics\<close>: neither an empty column set nor a sign that the table is
  unsupported. For the same table name \<^verbatim>\<open>get_static_schema\<close> of \<^verbatim>\<open>t_metrics_agent_v2.py\<close>
  answers \<^verbatim>\<open>unsupported_table\<close>, without columns.
\<close>

theorem fallback_ignores_table_name:
  "fst (get_schema_dict absent_driver ''orders'' state0) = Inr (get_fallback_schema ''orders'') \<and>
   table_name (get_fallback_schema ''orders'') = ''orders'' \<and>
   source (get_fallback_schema ''orders'') = ''fallback'' \<and>
   columns (get_fallback_schema ''orders'') = columns (get_fallback_schema ''t_metrics'') \<and>
   length (columns (get_fallback_schema ''orders'')) = 17 \<and>
   dict_getitem (get_static_schema ''orders'') ''source'' = Inr (PStr ''unsupported_table'') \<and>
   dict_getitem (get_static_schema ''orders'') ''success'' = Inr (PBool False) \<and>
   dict_getitem (get_static_schema ''orders'') ''columns'' = Inl KeyError"
  by (simp add: eval_defs absent_driver_def get_fallback_schema_def get_static_schema_def)

end
